theory Spec2Isabelle
  imports Main "HOL-Library.Word"
begin

section \<open>The mock execution engine: data model\<close>

text \<open>
  The engine backend of the command \<^verbatim>\<open>engine\<close>: the three Engine API methods
  \<^verbatim>\<open>GetPayloadV1\<close>, \<^verbatim>\<open>NewPayloadV1\<close> and \<^verbatim>\<open>ForkchoiceUpdatedV1\<close> of
  \<^verbatim>\<open>EngineBackend\<close>, with the identifier counter and the cache of recent payloads
  they share.

  Each method is modelled as a function from the backend's state to a result and the
  state after the call. The logger is write-only diagnostics and is left out; the
  state is the counter, the cache and the mock chain. One call is one step: the model
  is sequential.
\<close>

type_synonym byte = "8 word"
type_synonym uint64 = "64 word"

text \<open>\<^verbatim>\<open>common.Hash\<close> is \<^verbatim>\<open>[32]byte\<close>, \<^verbatim>\<open>common.Address\<close> is \<^verbatim>\<open>[20]byte\<close> and
  \<^verbatim>\<open>PayloadID\<close> is \<^verbatim>\<open>[8]byte\<close>: byte sequences, compared byte by byte.\<close>

type_synonym Hash = "byte list"
type_synonym Address = "byte list"
type_synonym PayloadID = "byte list"

text \<open>The status constants of package \<^verbatim>\<open>api\<close>; the source names four of them, the fifth
  (\<^verbatim>\<open>INVALID\<close>) is never produced by the backend.\<close>

datatype ExecutePayloadStatus =
    ExecutionValid
  | ExecutionInvalid
  | ExecutionSyncing
  | ExecutionInvalidBlockHash
  | ExecutionInvalidTerminalBlock

record PayloadStatusV1 =
  Status :: ExecutePayloadStatus
  LatestValidHash :: "Hash option"

record ForkchoiceUpdatedResult =
  fcu_Status :: PayloadStatusV1
  fcu_PayloadID :: "PayloadID option"

record ForkchoiceStateV1 =
  HeadBlockHash :: Hash
  SafeBlockHash :: Hash
  FinalizedBlockHash :: Hash

record PayloadAttributesV1 =
  Timestamp :: uint64
  PrevRandao :: Hash
  SuggestedFeeRecipient :: Address

text \<open>Of the wire payload the backend reads the two hashes only; the other fields
  are carried along.\<close>

record ExecutionPayloadV1 =
  ParentHash :: Hash
  BlockHash :: Hash
  PayloadTimestamp :: uint64
  PayloadBody :: "byte list"

text \<open>Of a block header the backend reads the difficulty, a \<^verbatim>\<open>*big.Int\<close>.\<close>

record Header =
  Difficulty :: "int option"

record ChainConfig =
  TerminalTotalDifficulty :: "int option"

record Genesis =
  Config :: ChainConfig
  GasLimit :: uint64

text \<open>\<^verbatim>\<open>MockChain\<close>: the backend reads its fields \<^verbatim>\<open>chain\<close> and \<^verbatim>\<open>gspec\<close>. The type
  \<open>'c\<close> is the state of the block chain behind it.\<close>

record 'c MockChain =
  chain :: 'c
  gspec :: Genesis

subsection \<open>Errors\<close>

datatype ErrorCode = UnavailablePayload

text \<open>\<^verbatim>\<open>fmt.Errorf(format, id)\<close> is kept as the format and its argument.\<close>

datatype fmt_error = Errorf string PayloadID

text \<open>
  An error returned by a method is an \<^verbatim>\<open>rpcError\<close> (message and code), an error of the
  chain component passed on as it is, or the error of the cache's constructor. A
  run-time panic (a nil dereference, a failed type assertion) is a value too.
\<close>

datatype 'e error =
    rpcError fmt_error ErrorCode
  | ChainError 'e
  | CacheError string
  | Panic

text \<open>\<^verbatim>\<open>func (e *rpcError) ErrorCode() int\<close>: only an \<^verbatim>\<open>rpcError\<close> has a code of its
  own.\<close>

fun error_ErrorCode :: "'e error \<Rightarrow> ErrorCode option" where
  "error_ErrorCode (rpcError err c) = Some c"
| "error_ErrorCode _ = None"

subsection \<open>Values behind an empty interface\<close>

text \<open>The cache stores \<^verbatim>\<open>interface{}\<close> values: a \<^verbatim>\<open>*ExecutionPayloadV1\<close> or a value of
  any other dynamic type.\<close>

datatype iface = PayloadPtr ExecutionPayloadV1 | OtherValue string

text \<open>The type assertion \<^verbatim>\<open>v.(*ExecutionPayloadV1)\<close> panics on any other dynamic type.\<close>

fun assert_ExecutionPayloadV1 :: "iface \<Rightarrow> 'e error + ExecutionPayloadV1" where
  "assert_ExecutionPayloadV1 (PayloadPtr p) = Inr p"
| "assert_ExecutionPayloadV1 (OtherValue _) = Inl Panic"

section \<open>The payload cache\<close>

text \<open>
  Modelled from the spec: the cache \<^verbatim>\<open>lru.Cache\<close> of the imported package
  \<^verbatim>\<open>golang-lru\<close>, whose code is not among the sources. The entries are kept in order of
  use, the most recently used first. \<open>put\<close> inserts or replaces; at capacity it evicts
  the least recently used entry. A successful \<open>get\<close> counts as a use; a failed one
  changes nothing. The constructor refuses a capacity that is not positive.
\<close>

record Cache =
  capacity :: nat
  entries :: "(PayloadID \<times> iface) list"

definition lru_New :: "int \<Rightarrow> 'e error + Cache" where
  "lru_New n =
     (if n \<le> 0 then Inl (CacheError ''Must provide a positive size'')
      else Inr \<lparr>capacity = nat n, entries = []\<rparr>)"

definition lru_Contains :: "Cache \<Rightarrow> PayloadID \<Rightarrow> bool" where
  "lru_Contains c k = (k \<in> fst ` set (entries c))"

definition lru_Peek :: "Cache \<Rightarrow> PayloadID \<Rightarrow> iface option" where
  "lru_Peek c k = map_of (entries c) k"

definition move_to_front :: "PayloadID \<Rightarrow> iface \<Rightarrow> (PayloadID \<times> iface) list \<Rightarrow> (PayloadID \<times> iface) list" where
  "move_to_front k v es = (k, v) # filter (\<lambda>e. fst e \<noteq> k) es"

definition lru_Add :: "Cache \<Rightarrow> PayloadID \<Rightarrow> iface \<Rightarrow> Cache" where
  "lru_Add c k v =
     (if lru_Contains c k then c\<lparr>entries := move_to_front k v (entries c)\<rparr>
      else if capacity c \<le> length (entries c)
        then c\<lparr>entries := (k, v) # butlast (entries c)\<rparr>
        else c\<lparr>entries := (k, v) # entries c\<rparr>)"

definition lru_Get :: "Cache \<Rightarrow> PayloadID \<Rightarrow> iface option \<times> Cache" where
  "lru_Get c k =
     (case map_of (entries c) k of
        None \<Rightarrow> (None, c)
      | Some v \<Rightarrow> (Some v, c\<lparr>entries := move_to_front k v (entries c)\<rparr>))"

section \<open>The chain component\<close>

text \<open>
  The operations the backend calls and whose code is not among the sources are
  parameters of the model. Each operation on the chain takes the state of the chain and
  returns the state after it, so that whatever a call does to the chain is visible in
  the result.
\<close>

record AddNewBlockArgs =
  arg_parent :: Hash
  arg_coinbase :: Address
  arg_timestamp :: uint64
  arg_gasLimit :: uint64
  arg_transactions :: "byte list list"
  arg_prevRandao :: Hash
  arg_extraData :: "byte list"
  arg_uncles :: "byte list list"
  arg_storeBlock :: bool

record ('c, 'b, 'e) chain_component =
  ValidateHash :: "ExecutionPayloadV1 \<Rightarrow> bool"
  GetHeaderByHash :: "'c \<Rightarrow> Hash \<Rightarrow> Header option \<times> 'c"
  ProcessPayload :: "'c MockChain \<Rightarrow> ExecutionPayloadV1 \<Rightarrow> ('e + 'b) \<times> 'c MockChain"
  AddNewBlock :: "'c MockChain \<Rightarrow> AddNewBlockArgs \<Rightarrow> ('e + 'b) \<times> 'c MockChain"
  BlockToPayload :: "'b \<Rightarrow> 'e + ExecutionPayloadV1"

section \<open>Library functions used by the backend\<close>

text \<open>\<^verbatim>\<open>binary.BigEndian.PutUint64\<close>: the most significant byte first.\<close>

definition PutUint64 :: "uint64 \<Rightarrow> byte list" where
  "PutUint64 v =
     [ucast (drop_bit 56 v), ucast (drop_bit 48 v), ucast (drop_bit 40 v),
      ucast (drop_bit 32 v), ucast (drop_bit 24 v), ucast (drop_bit 16 v),
      ucast (drop_bit 8 v), ucast v]"

text \<open>A byte sequence read as a big-endian unsigned integer.\<close>

definition big_endian :: "byte list \<Rightarrow> nat" where
  "big_endian bs = foldl (\<lambda>a b. a * 256 + unat b) 0 bs"

text \<open>\<^verbatim>\<open>common.BytesToHash\<close>: the last 32 bytes, padded with zeros on the left.\<close>

definition BytesToHash :: "byte list \<Rightarrow> Hash" where
  "BytesToHash b =
     (let b' = (if 32 < length b then drop (length b - 32) b else b)
      in replicate (32 - length b') 0 @ b')"

text \<open>\<^verbatim>\<open>x.Cmp(y)\<close> on \<^verbatim>\<open>*big.Int\<close>: equal pointers compare equal, and otherwise a nil
  pointer is dereferenced.\<close>

fun big_Cmp :: "int option \<Rightarrow> int option \<Rightarrow> 'e error + int" where
  "big_Cmp None None = Inr 0"
| "big_Cmp (Some x) (Some y) = Inr (if x < y then -1 else if x = y then 0 else 1)"
| "big_Cmp _ _ = Inl Panic"

section \<open>The engine backend\<close>

record 'c EngineBackend =
  mockChain :: "'c MockChain"
  payloadIdCounter :: uint64
  recentPayloads :: Cache

definition NewEngineBackend :: "'c MockChain \<Rightarrow> 'e error + 'c EngineBackend" where
  "NewEngineBackend mock =
     (case lru_New 10 of
        Inl err \<Rightarrow> Inl err
      | Inr cache \<Rightarrow>
          Inr \<lparr>mockChain = mock, payloadIdCounter = 0, recentPayloads = cache\<rparr>)"

definition GetPayloadV1 ::
  "'c EngineBackend \<Rightarrow> PayloadID \<Rightarrow> ('e error + ExecutionPayloadV1) \<times> 'c EngineBackend" where
  "GetPayloadV1 e pid =
     (case lru_Get (recentPayloads e) pid of
        (None, cache) \<Rightarrow>
          (Inl (rpcError (Errorf ''unknown payload %d'' pid) UnavailablePayload),
           e\<lparr>recentPayloads := cache\<rparr>)
      | (Some payload, cache) \<Rightarrow>
          (assert_ExecutionPayloadV1 payload, e\<lparr>recentPayloads := cache\<rparr>))"

definition NewPayloadV1 ::
  "('c, 'b, 'e) chain_component \<Rightarrow> 'c EngineBackend \<Rightarrow> ExecutionPayloadV1
   \<Rightarrow> ('e error + PayloadStatusV1) \<times> 'c EngineBackend" where
  "NewPayloadV1 cc e payload =
     (if \<not> ValidateHash cc payload
      then (Inr \<lparr>Status = ExecutionInvalidBlockHash, LatestValidHash = None\<rparr>, e)
      else
       (case GetHeaderByHash cc (chain (mockChain e)) (ParentHash payload) of
          (None, ch) \<Rightarrow>
            (Inr \<lparr>Status = ExecutionSyncing, LatestValidHash = None\<rparr>,
             e\<lparr>mockChain := (mockChain e)\<lparr>chain := ch\<rparr>\<rparr>)
        | (Some parent, ch) \<Rightarrow>
            (let e1 = e\<lparr>mockChain := (mockChain e)\<lparr>chain := ch\<rparr>\<rparr> in
              (case big_Cmp (Difficulty parent)
                     (TerminalTotalDifficulty (Config (gspec (mockChain e1)))) of
                 Inl err \<Rightarrow> (Inl err, e1)
               | Inr r \<Rightarrow>
                  (if r < 0
                   then (Inr \<lparr>Status = ExecutionInvalidTerminalBlock,
                              LatestValidHash = None\<rparr>, e1)
                   else
                    (case ProcessPayload cc (mockChain e1) payload of
                       (Inl err, mc) \<Rightarrow> (Inl (ChainError err), e1\<lparr>mockChain := mc\<rparr>)
                     | (Inr bl, mc) \<Rightarrow>
                         (Inr \<lparr>Status = ExecutionValid, LatestValidHash = None\<rparr>,
                          e1\<lparr>mockChain := mc\<rparr>)))))))"

definition ForkchoiceUpdatedV1 ::
  "('c, 'b, 'e) chain_component \<Rightarrow> 'c EngineBackend \<Rightarrow> ForkchoiceStateV1
   \<Rightarrow> PayloadAttributesV1 option
   \<Rightarrow> ('e error + ForkchoiceUpdatedResult) \<times> 'c EngineBackend" where
  "ForkchoiceUpdatedV1 cc e heads attributes =
     (case attributes of
        None \<Rightarrow>
          (Inr \<lparr>fcu_Status = \<lparr>Status = ExecutionValid,
                               LatestValidHash = Some (HeadBlockHash heads)\<rparr>,
                fcu_PayloadID = None\<rparr>, e)
      | Some attrs \<Rightarrow>
          (let idU64 = payloadIdCounter e + 1;
               e1 = e\<lparr>payloadIdCounter := idU64\<rparr>;
               pid = PutUint64 idU64;
               gasLimit = GasLimit (gspec (mockChain e1));
               extraData = []
           in (case AddNewBlock cc (mockChain e1)
                      \<lparr>arg_parent = BytesToHash (HeadBlockHash heads),
                       arg_coinbase = SuggestedFeeRecipient attrs,
                       arg_timestamp = Timestamp attrs,
                       arg_gasLimit = gasLimit,
                       arg_transactions = [],
                       arg_prevRandao = PrevRandao attrs,
                       arg_extraData = extraData,
                       arg_uncles = [],
                       arg_storeBlock = False\<rparr> of
                 (Inl err, mc) \<Rightarrow> (Inl (ChainError err), e1\<lparr>mockChain := mc\<rparr>)
               | (Inr bl, mc) \<Rightarrow>
                   (let e2 = e1\<lparr>mockChain := mc\<rparr> in
                     (case BlockToPayload cc bl of
                        Inl err \<Rightarrow> (Inl (ChainError err), e2)
                      | Inr payload \<Rightarrow>
                          (Inr \<lparr>fcu_Status = \<lparr>Status = ExecutionValid,
                                               LatestValidHash = Some (HeadBlockHash heads)\<rparr>,
                                fcu_PayloadID = Some pid\<rparr>,
                           e2\<lparr>recentPayloads :=
                                lru_Add (recentPayloads e2) pid (PayloadPtr payload)\<rparr>))))))"

section \<open>Sequences of calls\<close>

text \<open>The three methods are registered under the namespace \<^verbatim>\<open>engine\<close>; a client's
  session is a sequence of calls served one after the other on one backend.\<close>

datatype call =
    GetPayload PayloadID
  | NewPayload ExecutionPayloadV1
  | ForkchoiceUpdated ForkchoiceStateV1 "PayloadAttributesV1 option"

datatype reply =
    PayloadReply ExecutionPayloadV1
  | StatusReply PayloadStatusV1
  | ForkchoiceReply ForkchoiceUpdatedResult

fun serve ::
  "('c, 'b, 'e) chain_component \<Rightarrow> 'c EngineBackend \<Rightarrow> call
   \<Rightarrow> ('e error + reply) \<times> 'c EngineBackend" where
  "serve cc e (GetPayload pid) =
     (case GetPayloadV1 e pid of (r, e') \<Rightarrow> (map_sum (\<lambda>x. x) PayloadReply r, e'))"
| "serve cc e (NewPayload payload) =
     (case NewPayloadV1 cc e payload of (r, e') \<Rightarrow> (map_sum (\<lambda>x. x) StatusReply r, e'))"
| "serve cc e (ForkchoiceUpdated heads attributes) =
     (case ForkchoiceUpdatedV1 cc e heads attributes of
        (r, e') \<Rightarrow> (map_sum (\<lambda>x. x) ForkchoiceReply r, e'))"

fun serve_all ::
  "('c, 'b, 'e) chain_component \<Rightarrow> 'c EngineBackend \<Rightarrow> call list
   \<Rightarrow> ('e error + reply) list \<times> 'c EngineBackend" where
  "serve_all cc e [] = ([], e)"
| "serve_all cc e (c # cs) =
     (case serve cc e c of
        (r, e1) \<Rightarrow> (case serve_all cc e1 cs of (rs, e2) \<Rightarrow> (r # rs, e2)))"

text \<open>The identifier a reply carries, if any, and the identifiers of a list of
  replies in the order of the calls.\<close>

fun reply_PayloadID :: "'e error + reply \<Rightarrow> PayloadID option" where
  "reply_PayloadID (Inr (ForkchoiceReply r)) = fcu_PayloadID r"
| "reply_PayloadID _ = None"

definition returned_ids :: "('e error + reply) list \<Rightarrow> PayloadID list" where
  "returned_ids rs = List.map_filter reply_PayloadID rs"

text \<open>A call that asks for a payload to be prepared: an update with attributes.\<close>

fun is_prepare :: "call \<Rightarrow> bool" where
  "is_prepare (ForkchoiceUpdated heads (Some attrs)) = True"
| "is_prepare _ = False"

section \<open>A small chain component\<close>

text \<open>
  A chain component to evaluate the backend on: the chain is a table of known headers
  and a count of the lookups made; a payload's hash is valid when it is the parent hash
  followed by the body; a block is built on a known parent only, and a block with
  timestamp 0 has no wire form.
\<close>

type_synonym toy_chain = "(Hash \<times> Header) list \<times> nat"

definition toy_component :: "(toy_chain, ExecutionPayloadV1, string) chain_component" where
  "toy_component =
     \<lparr>ValidateHash = (\<lambda>p. BlockHash p = ParentHash p @ PayloadBody p),
      GetHeaderByHash = (\<lambda>c h. (map_of (fst c) h, (fst c, Suc (snd c)))),
      ProcessPayload = (\<lambda>mc p.
         if PayloadBody p = [] then (Inl ''empty block'', mc)
         else (Inr p, mc\<lparr>chain := ((BlockHash p, \<lparr>Difficulty = Some 0\<rparr>) # fst (chain mc),
                                     snd (chain mc))\<rparr>)),
      AddNewBlock = (\<lambda>mc a.
         case map_of (fst (chain mc)) (arg_parent a) of
           None \<Rightarrow> (Inl ''unknown parent'', mc)
         | Some h \<Rightarrow>
             (Inr \<lparr>ParentHash = arg_parent a, BlockHash = arg_parent a @ arg_extraData a,
                   PayloadTimestamp = arg_timestamp a, PayloadBody = arg_extraData a\<rparr>, mc)),
      BlockToPayload = (\<lambda>b. if PayloadTimestamp b = 0 then Inl ''no timestamp'' else Inr b)\<rparr>"

definition hashA :: Hash where
  "hashA = replicate 32 0"

definition hashB :: Hash where
  "hashB = replicate 32 1"

definition hashC :: Hash where
  "hashC = replicate 32 2"

text \<open>Block A is below the terminal total difficulty 10, block B has reached it, and
  block C is not known.\<close>

definition toy_mock :: "toy_chain MockChain" where
  "toy_mock =
     \<lparr>chain = ([(hashA, \<lparr>Difficulty = Some 5\<rparr>), (hashB, \<lparr>Difficulty = Some 10\<rparr>)], 0),
      gspec = \<lparr>Config = \<lparr>TerminalTotalDifficulty = Some 10\<rparr>, GasLimit = 30000000\<rparr>\<rparr>"

definition toy_backend :: "toy_chain EngineBackend" where
  "toy_backend =
     \<lparr>mockChain = toy_mock, payloadIdCounter = 0,
      recentPayloads = \<lparr>capacity = 10, entries = []\<rparr>\<rparr>"

definition toy_heads :: "Hash \<Rightarrow> ForkchoiceStateV1" where
  "toy_heads h = \<lparr>HeadBlockHash = h, SafeBlockHash = h, FinalizedBlockHash = h\<rparr>"

definition toy_attrs :: "uint64 \<Rightarrow> PayloadAttributesV1" where
  "toy_attrs t = \<lparr>Timestamp = t, PrevRandao = replicate 32 0,
                  SuggestedFeeRecipient = replicate 20 0\<rparr>"

definition toy_payload :: "Hash \<Rightarrow> byte list \<Rightarrow> Hash \<Rightarrow> ExecutionPayloadV1" where
  "toy_payload parent body h =
     \<lparr>ParentHash = parent, BlockHash = h, PayloadTimestamp = 1000, PayloadBody = body\<rparr>"

section \<open>Basic facts\<close>

subsection \<open>Identifiers as big-endian numbers\<close>

lemma unat_drop_bit_div: "unat (drop_bit k (v::uint64)) = unat v div 2 ^ k"
proof -
  have "unat (drop_bit k v) = drop_bit k (unat v)"
    by (rule unat_drop_bit_eq)
  then show ?thesis
    by (simp only: drop_bit_eq_div)
qed

lemma big_endian_PutUint64: "big_endian (PutUint64 v) = unat v"
proof -
  define n where "n = unat v"
  have lt: "n < 2 ^ 64" unfolding n_def using unsigned_less [of v, where 'a=nat] by simp
  have s: "\<And>k. n mod (2 ^ k * 256) = 2 ^ k * (n div 2 ^ k mod 256) + n mod 2 ^ k"
    by (simp add: mod_mult2_eq)
  have "big_endian (PutUint64 v) =
      ((((((( (n div 2^56 mod 256) * 256 + n div 2^48 mod 256) * 256 + n div 2^40 mod 256) * 256
        + n div 2^32 mod 256) * 256 + n div 2^24 mod 256) * 256 + n div 2^16 mod 256) * 256
        + n div 2^8 mod 256) * 256 + n mod 256)"
    by (simp add: big_endian_def PutUint64_def unsigned_ucast_eq take_bit_eq_mod unat_drop_bit_div n_def)
  also have "\<dots> = n mod 2 ^ 64"
    using s[of 8] s[of 16] s[of 24] s[of 32] s[of 40] s[of 48] s[of 56] 
    by simp
  finally show ?thesis using lt by (simp add: n_def)
qed

subsection \<open>One call\<close>

text \<open>An update with attributes, with the bookkeeping of the definition unfolded.\<close>

lemma ForkchoiceUpdatedV1_with_attributes:
  "ForkchoiceUpdatedV1 cc e heads (Some attrs) =
     (case AddNewBlock cc (mockChain e)
             \<lparr>arg_parent = BytesToHash (HeadBlockHash heads),
              arg_coinbase = SuggestedFeeRecipient attrs,
              arg_timestamp = Timestamp attrs,
              arg_gasLimit = GasLimit (gspec (mockChain e)),
              arg_transactions = [],
              arg_prevRandao = PrevRandao attrs,
              arg_extraData = [],
              arg_uncles = [],
              arg_storeBlock = False\<rparr> of
        (Inl err, mc) \<Rightarrow>
          (Inl (ChainError err), e\<lparr>payloadIdCounter := payloadIdCounter e + 1, mockChain := mc\<rparr>)
      | (Inr bl, mc) \<Rightarrow>
          (case BlockToPayload cc bl of
             Inl err \<Rightarrow>
               (Inl (ChainError err),
                e\<lparr>payloadIdCounter := payloadIdCounter e + 1, mockChain := mc\<rparr>)
           | Inr payload \<Rightarrow>
               (Inr \<lparr>fcu_Status = \<lparr>Status = ExecutionValid,
                                    LatestValidHash = Some (HeadBlockHash heads)\<rparr>,
                     fcu_PayloadID = Some (PutUint64 (payloadIdCounter e + 1))\<rparr>,
                e\<lparr>payloadIdCounter := payloadIdCounter e + 1, mockChain := mc,
                  recentPayloads := lru_Add (recentPayloads e)
                     (PutUint64 (payloadIdCounter e + 1)) (PayloadPtr payload)\<rparr>)))"
  by (simp add: ForkchoiceUpdatedV1_def Let_def split: prod.splits sum.splits)

lemma map_of_move_to_front:
  "map_of es k = Some v \<Longrightarrow> map_of (move_to_front k v es) = map_of es"
proof
  fix k'
  assume h: "map_of es k = Some v"
  have "map_of (filter (\<lambda>e. fst e \<noteq> k) es) k' = (if k' = k then None else map_of es k')"
    by (induction es) auto
  with h show "map_of (move_to_front k v es) k' = map_of es k'"
    by (simp add: move_to_front_def)
qed

lemma lru_Peek_lru_Get: "lru_Peek (snd (lru_Get c k)) = lru_Peek c"
  by (auto simp: lru_Get_def lru_Peek_def map_of_move_to_front split: option.splits)

lemma GetPayloadV1_state:
  "GetPayloadV1 e pid = (x, e') \<Longrightarrow>
   e' = e\<lparr>recentPayloads := snd (lru_Get (recentPayloads e) pid)\<rparr>"
  by (auto simp: GetPayloadV1_def split: prod.splits option.splits)

lemma NewPayloadV1_frame:
  "recentPayloads (snd (NewPayloadV1 cc e payload)) = recentPayloads e \<and>
   payloadIdCounter (snd (NewPayloadV1 cc e payload)) = payloadIdCounter e"
  by (simp add: NewPayloadV1_def Let_def split: prod.splits option.splits sum.splits)

section \<open>Validation of a submitted payload\<close>

text \<open>
  Claim C5. A payload whose declared block hash does not match the hash of its contents
  is answered with the status \<^verbatim>\<open>INVALID_BLOCK_HASH\<close>, whatever the chain component
  and the state of the backend are; the state after the call is the state before it,
  so no header was looked up and nothing was executed: the check comes first.
\<close>

theorem NewPayloadV1_invalid_block_hash:
  "\<not> ValidateHash cc payload \<Longrightarrow>
   NewPayloadV1 cc e payload =
     (Inr \<lparr>Status = ExecutionInvalidBlockHash, LatestValidHash = None\<rparr>, e)"
  by (simp add: NewPayloadV1_def)

theorem NewPayloadV1_invalid_block_hash_witness:
  "\<not> ValidateHash toy_component (toy_payload hashB [1] hashC) \<and>
   NewPayloadV1 toy_component toy_backend (toy_payload hashB [1] hashC) =
     (Inr \<lparr>Status = ExecutionInvalidBlockHash, LatestValidHash = None\<rparr>, toy_backend)"
proof -
  have h: "\<not> ValidateHash toy_component (toy_payload hashB [1] hashC)"
    by code_simp
  from h NewPayloadV1_invalid_block_hash [OF h, of toy_backend] show ?thesis
    by simp
qed

text \<open>
  Claim C9. A payload with a consistent block hash whose parent hash the chain does
  not know is answered with the status \<^verbatim>\<open>SYNCING\<close>, a reply and not an error. The
  state after the call is the state the lookup left: the threshold is not read (the
  answer is the same when it is nil) and nothing is executed.
\<close>

theorem NewPayloadV1_unknown_parent:
  "ValidateHash cc payload \<Longrightarrow>
   GetHeaderByHash cc (chain (mockChain e)) (ParentHash payload) = (None, ch) \<Longrightarrow>
   NewPayloadV1 cc e payload =
     (Inr \<lparr>Status = ExecutionSyncing, LatestValidHash = None\<rparr>,
      e\<lparr>mockChain := (mockChain e)\<lparr>chain := ch\<rparr>\<rparr>)"
  by (simp add: NewPayloadV1_def)

theorem NewPayloadV1_unknown_parent_witness:
  "ValidateHash toy_component (toy_payload hashC [1] (hashC @ [1])) \<and>
   GetHeaderByHash toy_component (chain (mockChain toy_backend))
     (ParentHash (toy_payload hashC [1] (hashC @ [1]))) = (None, (fst (chain toy_mock), 1)) \<and>
   NewPayloadV1 toy_component toy_backend (toy_payload hashC [1] (hashC @ [1])) =
     (Inr \<lparr>Status = ExecutionSyncing, LatestValidHash = None\<rparr>,
      toy_backend\<lparr>mockChain := (mockChain toy_backend)\<lparr>chain := (fst (chain toy_mock), 1)\<rparr>\<rparr>)"
proof -
  have h1: "ValidateHash toy_component (toy_payload hashC [1] (hashC @ [1]))"
    by code_simp
  have h2: "GetHeaderByHash toy_component (chain (mockChain toy_backend))
     (ParentHash (toy_payload hashC [1] (hashC @ [1]))) = (None, (fst (chain toy_mock), 1))"
    by code_simp
  from h1 h2 NewPayloadV1_unknown_parent [OF h1 h2] show ?thesis
    by simp
qed

text \<open>
  Claim C1. A payload with a consistent block hash whose parent is known and has a
  difficulty below the configured terminal total difficulty is answered with the
  status \<^verbatim>\<open>INVALID_TERMINAL_BLOCK\<close>, a reply and not an error, and is not executed.
  The accumulator the backend compares is the field \<^verbatim>\<open>Difficulty\<close> of the parent's
  header.
\<close>

theorem NewPayloadV1_parent_below_ttd:
  "ValidateHash cc payload \<Longrightarrow>
   GetHeaderByHash cc (chain (mockChain e)) (ParentHash payload) = (Some parent, ch) \<Longrightarrow>
   Difficulty parent = Some d \<Longrightarrow>
   TerminalTotalDifficulty (Config (gspec (mockChain e))) = Some ttd \<Longrightarrow>
   d < ttd \<Longrightarrow>
   NewPayloadV1 cc e payload =
     (Inr \<lparr>Status = ExecutionInvalidTerminalBlock, LatestValidHash = None\<rparr>,
      e\<lparr>mockChain := (mockChain e)\<lparr>chain := ch\<rparr>\<rparr>)"
  by (simp add: NewPayloadV1_def)

theorem NewPayloadV1_parent_below_ttd_witness:
  "ValidateHash toy_component (toy_payload hashA [1] (hashA @ [1])) \<and>
   GetHeaderByHash toy_component (chain (mockChain toy_backend))
     (ParentHash (toy_payload hashA [1] (hashA @ [1])))
     = (Some \<lparr>Difficulty = Some 5\<rparr>, (fst (chain toy_mock), 1)) \<and>
   Difficulty \<lparr>Difficulty = Some 5\<rparr> = Some 5 \<and>
   TerminalTotalDifficulty (Config (gspec (mockChain toy_backend))) = Some 10 \<and>
   (5::int) < 10 \<and>
   NewPayloadV1 toy_component toy_backend (toy_payload hashA [1] (hashA @ [1])) =
     (Inr \<lparr>Status = ExecutionInvalidTerminalBlock, LatestValidHash = None\<rparr>,
      toy_backend\<lparr>mockChain := (mockChain toy_backend)\<lparr>chain := (fst (chain toy_mock), 1)\<rparr>\<rparr>)"
proof -
  have h1: "ValidateHash toy_component (toy_payload hashA [1] (hashA @ [1]))"
    by code_simp
  have h2: "GetHeaderByHash toy_component (chain (mockChain toy_backend))
     (ParentHash (toy_payload hashA [1] (hashA @ [1])))
     = (Some \<lparr>Difficulty = Some 5\<rparr>, (fst (chain toy_mock), 1))"
    by code_simp
  have h3: "Difficulty \<lparr>Difficulty = Some 5\<rparr> = Some 5"
    by simp
  have h4: "TerminalTotalDifficulty (Config (gspec (mockChain toy_backend))) = Some 10"
    by (simp add: toy_backend_def toy_mock_def)
  have h5: "(5::int) < 10"
    by simp
  from h1 h2 h3 h4 h5 NewPayloadV1_parent_below_ttd [OF h1 h2 h3 h4 h5] show ?thesis
    by simp
qed

section \<open>Forkchoice updates\<close>

text \<open>
  Claim C7. An update without attributes is answered with the status \<^verbatim>\<open>VALID\<close>, the
  head block hash of the forkchoice state as latest valid hash and no identifier; the
  state after the call is the state before it: the counter and the cache are
  untouched.
\<close>

theorem ForkchoiceUpdatedV1_without_attributes:
  "ForkchoiceUpdatedV1 cc e heads None =
     (Inr \<lparr>fcu_Status = \<lparr>Status = ExecutionValid,
                          LatestValidHash = Some (HeadBlockHash heads)\<rparr>,
           fcu_PayloadID = None\<rparr>, e)"
  by (simp add: ForkchoiceUpdatedV1_def)

text \<open>
  Claim C6. The reply to an update carries an identifier exactly when attributes were
  supplied and the construction succeeded, that is, the chain component built a block
  and the block was converted to a wire payload; and every reply, with or without
  identifier, reports the status \<^verbatim>\<open>VALID\<close>.
\<close>

theorem ForkchoiceUpdatedV1_payloadId_iff:
  "((\<exists>r pid. fst (ForkchoiceUpdatedV1 cc e heads attributes) = Inr r \<and> fcu_PayloadID r = Some pid)
     \<longleftrightarrow>
    (\<exists>attrs bl mc payload. attributes = Some attrs \<and>
        AddNewBlock cc (mockChain e)
             \<lparr>arg_parent = BytesToHash (HeadBlockHash heads),
              arg_coinbase = SuggestedFeeRecipient attrs,
              arg_timestamp = Timestamp attrs,
              arg_gasLimit = GasLimit (gspec (mockChain e)),
              arg_transactions = [],
              arg_prevRandao = PrevRandao attrs,
              arg_extraData = [],
              arg_uncles = [],
              arg_storeBlock = False\<rparr> = (Inr bl, mc) \<and>
        BlockToPayload cc bl = Inr payload))
   \<and> (\<forall>r. fst (ForkchoiceUpdatedV1 cc e heads attributes) = Inr r
          \<longrightarrow> Status (fcu_Status r) = ExecutionValid)"
proof (cases attributes)
  case None
  then show ?thesis by (simp add: ForkchoiceUpdatedV1_def)
next
  case (Some attrs)
  then show ?thesis
    unfolding Some ForkchoiceUpdatedV1_with_attributes
    by (auto split: prod.splits sum.splits)
qed

theorem ForkchoiceUpdatedV1_payloadId_iff_witness:
  "fst (ForkchoiceUpdatedV1 toy_component toy_backend (toy_heads hashB) (Some (toy_attrs 1000)))
     = Inr \<lparr>fcu_Status = \<lparr>Status = ExecutionValid, LatestValidHash = Some hashB\<rparr>,
            fcu_PayloadID = Some [0, 0, 0, 0, 0, 0, 0, 1]\<rparr> \<and>
   Status (fcu_Status \<lparr>fcu_Status = \<lparr>Status = ExecutionValid, LatestValidHash = Some hashB\<rparr>,
            fcu_PayloadID = Some [0, 0, 0, 0, 0, 0, 0, 1]\<rparr>) = ExecutionValid \<and>
   (\<exists>attrs bl mc payload. Some (toy_attrs 1000) = Some attrs \<and>
        AddNewBlock toy_component (mockChain toy_backend)
             \<lparr>arg_parent = BytesToHash (HeadBlockHash (toy_heads hashB)),
              arg_coinbase = SuggestedFeeRecipient attrs,
              arg_timestamp = Timestamp attrs,
              arg_gasLimit = GasLimit (gspec (mockChain toy_backend)),
              arg_transactions = [],
              arg_prevRandao = PrevRandao attrs,
              arg_extraData = [],
              arg_uncles = [],
              arg_storeBlock = False\<rparr> = (Inr bl, mc) \<and>
        BlockToPayload toy_component bl = Inr payload)"
proof -
  have h: "fst (ForkchoiceUpdatedV1 toy_component toy_backend (toy_heads hashB)
                 (Some (toy_attrs 1000)))
     = Inr \<lparr>fcu_Status = \<lparr>Status = ExecutionValid, LatestValidHash = Some hashB\<rparr>,
            fcu_PayloadID = Some [0, 0, 0, 0, 0, 0, 0, 1]\<rparr>"
    by code_simp
  have ex: "\<exists>r pid. fst (ForkchoiceUpdatedV1 toy_component toy_backend (toy_heads hashB)
                 (Some (toy_attrs 1000))) = Inr r \<and> fcu_PayloadID r = Some pid"
    unfolding h by simp
  from ForkchoiceUpdatedV1_payloadId_iff [of toy_component toy_backend "toy_heads hashB"
      "Some (toy_attrs 1000)"] h ex
  show ?thesis by simp
qed

text \<open>
  Claim C3 does not hold as stated: the identifier is allocated before the block is
  built, so an update with attributes that fails has advanced the counter. Here the
  head is unknown to the chain, the construction fails, and the counter has gone from
  0 to 1.
\<close>

theorem failed_prepare_advances_counter:
  "fst (ForkchoiceUpdatedV1 toy_component toy_backend (toy_heads hashC) (Some (toy_attrs 1000)))
     = Inl (ChainError ''unknown parent'') \<and>
   payloadIdCounter toy_backend = 0 \<and>
   payloadIdCounter
     (snd (ForkchoiceUpdatedV1 toy_component toy_backend (toy_heads hashC) (Some (toy_attrs 1000))))
     = 1"
  by code_simp

text \<open>
  Claim C3, amended. A call that returns no identifier, which is every call but an
  update with attributes that succeeds, leaves the contents of the cache as they
  were. An update with attributes that returns no identifier has failed with an
  error; it leaves the cache exactly as before the call, and the counter one higher.
  Every other call leaves the counter as it was.
\<close>

theorem cache_entries_only_by_successful_prepare:
  "serve cc e c = (r, e') \<Longrightarrow> reply_PayloadID r = None \<Longrightarrow>
     lru_Peek (recentPayloads e') = lru_Peek (recentPayloads e) \<and>
     (is_prepare c \<longrightarrow>
        (\<exists>err. r = Inl err) \<and> recentPayloads e' = recentPayloads e \<and>
        payloadIdCounter e' = payloadIdCounter e + 1) \<and>
     (\<not> is_prepare c \<longrightarrow> payloadIdCounter e' = payloadIdCounter e)"
proof (cases c)
  case (GetPayload pid)
  assume "serve cc e c = (r, e')"
  with GetPayload have "e' = e\<lparr>recentPayloads := snd (lru_Get (recentPayloads e) pid)\<rparr>"
    by (auto split: prod.splits dest: GetPayloadV1_state)
  with GetPayload show ?thesis
    by (simp add: lru_Peek_lru_Get)
next
  case (NewPayload payload)
  assume "serve cc e c = (r, e')"
  with NewPayload have "e' = snd (NewPayloadV1 cc e payload)"
    by (auto split: prod.splits dest: arg_cong [where f = snd])
  with NewPayload show ?thesis
    by (simp add: NewPayloadV1_frame)
next
  case (ForkchoiceUpdated heads attributes)
  assume s: "serve cc e c = (r, e')" and n: "reply_PayloadID r = None"
  show ?thesis
  proof (cases attributes)
    case None
    with s ForkchoiceUpdated show ?thesis
      by (auto simp: ForkchoiceUpdatedV1_def)
  next
    case (Some attrs)
    with s n ForkchoiceUpdated show ?thesis
      by (auto simp: ForkchoiceUpdatedV1_with_attributes split: prod.splits sum.splits)
  qed
qed

theorem cache_entries_only_by_successful_prepare_witness:
  "serve toy_component toy_backend (ForkchoiceUpdated (toy_heads hashC) (Some (toy_attrs 1000)))
     = (Inl (ChainError ''unknown parent''), toy_backend\<lparr>payloadIdCounter := 1\<rparr>) \<and>
   reply_PayloadID (Inl (ChainError ''unknown parent'') :: string error + reply) = None \<and>
   is_prepare (ForkchoiceUpdated (toy_heads hashC) (Some (toy_attrs 1000))) \<and>
   recentPayloads (toy_backend\<lparr>payloadIdCounter := 1\<rparr>) = recentPayloads toy_backend \<and>
   payloadIdCounter (toy_backend\<lparr>payloadIdCounter := 1\<rparr>) = payloadIdCounter toy_backend + 1"
proof -
  have h1: "serve toy_component toy_backend
              (ForkchoiceUpdated (toy_heads hashC) (Some (toy_attrs 1000)))
     = (Inl (ChainError ''unknown parent''), toy_backend\<lparr>payloadIdCounter := 1\<rparr>)"
    by code_simp
  have h2: "reply_PayloadID (Inl (ChainError ''unknown parent'') :: string error + reply) = None"
    by simp
  from cache_entries_only_by_successful_prepare [OF h1 h2] h1 h2 show ?thesis
    by simp
qed

end
